theory Spec2Isabelle
  imports Complex_Main "HOL-Library.Word"
begin

unbundle bit_operations_syntax

section \<open>Common data\<close>

text \<open>
  Strings are character lists; the development reads them as ASCII text, for which
  \<^verbatim>\<open>str.encode()\<close> is the identity on bytes. Metadata is a dictionary from
  field names to strings.
\<close>

type_synonym byte = "8 word"
type_synonym metadata = "string \<rightharpoonup> string"

text \<open>
  The exception classes the source distinguishes in its handlers, each carrying the
  text \<^verbatim>\<open>str(e)\<close>. \<^verbatim>\<open>OtherException\<close> stands for any other subclass
  of \<^verbatim>\<open>Exception\<close>.
\<close>

datatype exn =
    ClientError string
  | OSError string
  | UnidentifiedImageError string
  | ValueError string
  | OtherException string

section \<open>ImageFilter (scraper.py, lines 18-58)\<close>

text \<open>
  The thresholds on the aspect ratio are rationals (Python floats other than NaN and
  the infinities are rationals). \<^verbatim>\<open>width / height\<close> is the exact quotient here;
  Python rounds it to the nearest double.
\<close>

record ImageFilter =
  min_width :: int
  min_height :: int
  min_aspect_ratio :: rat
  max_aspect_ratio :: rat
  min_file_size :: int

text \<open>config.py, lines 9-13.\<close>

definition DEFAULT_MIN_WIDTH :: int where "DEFAULT_MIN_WIDTH = 1920"
definition DEFAULT_MIN_HEIGHT :: int where "DEFAULT_MIN_HEIGHT = 1080"
definition DEFAULT_MIN_ASPECT_RATIO :: rat where "DEFAULT_MIN_ASPECT_RATIO = 3 / 2"
definition DEFAULT_MAX_ASPECT_RATIO :: rat where "DEFAULT_MAX_ASPECT_RATIO = 3"
definition DEFAULT_MIN_FILE_SIZE :: int where "DEFAULT_MIN_FILE_SIZE = 100 * 1024"

definition default_filter :: ImageFilter where
  "default_filter =
     \<lparr>min_width = DEFAULT_MIN_WIDTH, min_height = DEFAULT_MIN_HEIGHT,
      min_aspect_ratio = DEFAULT_MIN_ASPECT_RATIO, max_aspect_ratio = DEFAULT_MAX_ASPECT_RATIO,
      min_file_size = DEFAULT_MIN_FILE_SIZE\<rparr>"

text \<open>
  The handler of \<^verbatim>\<open>check_image\<close> catches
  \<^verbatim>\<open>(OSError, Image.UnidentifiedImageError, ValueError)\<close>; anything else propagates.
\<close>

fun filter_catches :: "exn \<Rightarrow> bool" where
  "filter_catches (OSError m) = True"
| "filter_catches (UnidentifiedImageError m) = True"
| "filter_catches (ValueError m) = True"
| "filter_catches (ClientError m) = False"
| "filter_catches (OtherException m) = False"

text \<open>
  \<^verbatim>\<open>Image.open(BytesIO(image_data)).size\<close> belongs to the imaging library, so the
  decoder is a parameter \<open>Image_open\<close>: it raises or yields \<open>(width, height)\<close>.
  The result of \<open>check_image\<close> is \<open>Inr b\<close> when the method returns \<open>b\<close> and
  \<open>Inl e\<close> when the exception \<open>e\<close> leaves it.
\<close>

definition check_image ::
  "ImageFilter \<Rightarrow> (byte list \<Rightarrow> exn + int \<times> int) \<Rightarrow> byte list \<Rightarrow> metadata option \<Rightarrow> exn + bool"
where
  "check_image self Image_open image_data metadata =
     (if int (length image_data) < min_file_size self then Inr False
      else case Image_open image_data of
             Inl e \<Rightarrow> if filter_catches e then Inr False else Inl e
           | Inr (width, height) \<Rightarrow>
               if width < min_width self \<or> height < min_height self then Inr False
               else let aspect_ratio = (if height > 0 then of_int width / of_int height else 0)
                    in if aspect_ratio < min_aspect_ratio self \<or> aspect_ratio > max_aspect_ratio self
                       then Inr False
                       else Inr True)"


section \<open>Strings\<close>

text \<open>
  \<^verbatim>\<open>str.lower()\<close> on ASCII text: the letters A-Z move to a-z, every other
  character stays.
\<close>

definition lower_char :: "char \<Rightarrow> char" where
  "lower_char c =
     (let n = (of_char c :: nat) in if 65 \<le> n \<and> n \<le> 90 then char_of (n + 32) else c)"

definition lower :: "string \<Rightarrow> string" where
  "lower s = map lower_char s"

text \<open>\<^verbatim>\<open>s.startswith(p)\<close>, \<^verbatim>\<open>s.endswith(p)\<close> and \<^verbatim>\<open>sub in s\<close>.\<close>

fun startswith :: "string \<Rightarrow> string \<Rightarrow> bool" where
  "startswith s [] = True"
| "startswith [] (p # ps) = False"
| "startswith (c # cs) (p # ps) = (c = p \<and> startswith cs ps)"

definition endswith :: "string \<Rightarrow> string \<Rightarrow> bool" where
  "endswith s p = startswith (rev s) (rev p)"

fun str_in :: "string \<Rightarrow> string \<Rightarrow> bool" where
  "str_in sub [] = (sub = [])"
| "str_in sub (c # cs) = (startswith (c # cs) sub \<or> str_in sub cs)"

text \<open>\<^verbatim>\<open>sep.join(xs)\<close>.\<close>

fun join :: "string \<Rightarrow> string list \<Rightarrow> string" where
  "join sep [] = []"
| "join sep [x] = x"
| "join sep (x # y # ys) = x @ sep @ join sep (y # ys)"

section \<open>Categorizer (scraper.py, lines 61-92; config.py, lines 22-30)\<close>

text \<open>
  The keyword table is a dictionary; its iteration order matters, so it is a list of
  (category, keywords) pairs in insertion order. A dictionary has no key twice.
\<close>

type_synonym category_table = "(string \<times> string list) list"

definition CATEGORY_KEYWORDS :: category_table where
  "CATEGORY_KEYWORDS =
    [(''nature'', [''nature'', ''landscape'', ''mountain'', ''forest'', ''ocean'', ''beach'',
                   ''sunset'', ''sunrise'']),
     (''space'', [''space'', ''galaxy'', ''nebula'', ''planet'', ''star'', ''cosmos'', ''astronomy'']),
     (''abstract'', [''abstract'', ''pattern'', ''geometric'', ''minimalist'', ''artistic'']),
     (''city'', [''city'', ''urban'', ''skyline'', ''architecture'', ''building'', ''street'']),
     (''animals'', [''animal'', ''wildlife'', ''cat'', ''dog'', ''bird'', ''lion'', ''tiger'']),
     (''tech'', [''technology'', ''computer'', ''digital'', ''cyberpunk'', ''futuristic'']),
     (''fantasy'', [''fantasy'', ''dragon'', ''magic'', ''medieval'', ''artwork''])]"

text \<open>
  \<^verbatim>\<open>Categorizer.__init__\<close>: \<^verbatim>\<open>self.keywords = keywords or config.CATEGORY_KEYWORDS\<close>.
  An absent table and an empty one are both falsy.
\<close>

definition Categorizer_init :: "category_table option \<Rightarrow> category_table" where
  "Categorizer_init keywords =
     (case keywords of
        None \<Rightarrow> CATEGORY_KEYWORDS
      | Some t \<Rightarrow> if t = [] then CATEGORY_KEYWORDS else t)"

text \<open>Lines 70-80: the fields present, lower-cased, joined by one space.\<close>

definition text_fields :: "metadata \<Rightarrow> string list" where
  "text_fields metadata =
     (case metadata ''title'' of Some v \<Rightarrow> [lower v] | None \<Rightarrow> []) @
     (case metadata ''description'' of Some v \<Rightarrow> [lower v] | None \<Rightarrow> []) @
     (case metadata ''alt'' of Some v \<Rightarrow> [lower v] | None \<Rightarrow> []) @
     (case metadata ''url'' of Some v \<Rightarrow> [lower v] | None \<Rightarrow> [])"

definition combined_text :: "metadata \<Rightarrow> string" where
  "combined_text metadata = join '' '' (text_fields metadata)"

text \<open>Line 85: \<^verbatim>\<open>sum(1 for keyword in keywords if keyword in combined_text)\<close>.\<close>

definition keyword_score :: "string list \<Rightarrow> string \<Rightarrow> nat" where
  "keyword_score keywords text = length (filter (\<lambda>keyword. str_in keyword text) keywords)"

text \<open>
  Lines 83-87: the dictionary \<^verbatim>\<open>category_scores\<close>, in insertion order, holding the
  categories of positive score only.
\<close>

definition category_scores :: "category_table \<Rightarrow> string \<Rightarrow> (string \<times> nat) list" where
  "category_scores table text =
     filter (\<lambda>entry. snd entry > 0) (map (\<lambda>entry. (fst entry, keyword_score (snd entry) text)) table)"

text \<open>
  Python's \<^verbatim>\<open>max(iterable, key=...)\<close> on a non-empty iterable: the running best
  is replaced only by an item of strictly greater key, so the first of several maximal
  items is returned.
\<close>

fun py_max :: "('a \<Rightarrow> nat) \<Rightarrow> 'a \<Rightarrow> 'a list \<Rightarrow> 'a" where
  "py_max key best [] = best"
| "py_max key best (x # xs) = py_max key (if key x > key best then x else best) xs"

text \<open>
  Lines 89-92. The key of \<^verbatim>\<open>max\<close> is \<^verbatim>\<open>category_scores.get\<close>, which for a key
  of the dictionary is the score stored with it.
\<close>

definition categorize :: "category_table \<Rightarrow> metadata \<Rightarrow> string" where
  "categorize table metadata =
     (case category_scores table (combined_text metadata) of
        [] \<Rightarrow> ''uncategorized''
      | x # xs \<Rightarrow> fst (py_max snd x xs))"

section \<open>Naming policy (scraper.py, lines 125-158)\<close>

subsection \<open>The digest of \<^verbatim>\<open>hashlib.md5\<close>\<close>

text \<open>
  \<^verbatim>\<open>hashlib.md5(data).hexdigest()\<close> is the MD5 message digest of RFC 1321, written
  out here on 32-bit words: padding to a multiple of 64 bytes, four state words, 64
  steps per block, little-endian throughout.
\<close>

type_synonym md5_state = "32 word \<times> 32 word \<times> 32 word \<times> 32 word"

definition rotl32 :: "32 word \<Rightarrow> nat \<Rightarrow> 32 word" where
  "rotl32 x n = push_bit n x OR drop_bit (32 - n) x"

definition md5_s :: "nat list" where
  "md5_s =
    [7, 12, 17, 22, 7, 12, 17, 22, 7, 12, 17, 22, 7, 12, 17, 22,
     5, 9, 14, 20, 5, 9, 14, 20, 5, 9, 14, 20, 5, 9, 14, 20,
     4, 11, 16, 23, 4, 11, 16, 23, 4, 11, 16, 23, 4, 11, 16, 23,
     6, 10, 15, 21, 6, 10, 15, 21, 6, 10, 15, 21, 6, 10, 15, 21]"

definition md5_K :: "32 word list" where
  "md5_K =
    [0xd76aa478, 0xe8c7b756, 0x242070db, 0xc1bdceee,
     0xf57c0faf, 0x4787c62a, 0xa8304613, 0xfd469501,
     0x698098d8, 0x8b44f7af, 0xffff5bb1, 0x895cd7be,
     0x6b901122, 0xfd987193, 0xa679438e, 0x49b40821,
     0xf61e2562, 0xc040b340, 0x265e5a51, 0xe9b6c7aa,
     0xd62f105d, 0x02441453, 0xd8a1e681, 0xe7d3fbc8,
     0x21e1cde6, 0xc33707d6, 0xf4d50d87, 0x455a14ed,
     0xa9e3e905, 0xfcefa3f8, 0x676f02d9, 0x8d2a4c8a,
     0xfffa3942, 0x8771f681, 0x6d9d6122, 0xfde5380c,
     0xa4beea44, 0x4bdecfa9, 0xf6bb4b60, 0xbebfbc70,
     0x289b7ec6, 0xeaa127fa, 0xd4ef3085, 0x04881d05,
     0xd9d4d039, 0xe6db99e5, 0x1fa27cf8, 0xc4ac5665,
     0xf4292244, 0x432aff97, 0xab9423a7, 0xfc93a039,
     0x655b59c3, 0x8f0ccc92, 0xffeff47d, 0x85845dd1,
     0x6fa87e4f, 0xfe2ce6e0, 0xa3014314, 0x4e0811a1,
     0xf7537e82, 0xbd3af235, 0x2ad7d2bb, 0xeb86d391]"

definition md5_step :: "32 word list \<Rightarrow> md5_state \<Rightarrow> nat \<Rightarrow> md5_state" where
  "md5_step M st i =
     (case st of (A, B, C, D) \<Rightarrow>
        let (F, g) =
              (if i < 16 then ((B AND C) OR (NOT B AND D), i)
               else if i < 32 then ((D AND B) OR (NOT D AND C), (5 * i + 1) mod 16)
               else if i < 48 then (B XOR C XOR D, (3 * i + 5) mod 16)
               else (C XOR (B OR NOT D), (7 * i) mod 16));
            F' = F + A + md5_K ! i + M ! g
        in (D, B + rotl32 F' (md5_s ! i), B, C))"

definition md5_block :: "md5_state \<Rightarrow> 32 word list \<Rightarrow> md5_state" where
  "md5_block st M =
     (case (st, foldl (md5_step M) st [0..<64]) of
        ((a0, b0, c0, d0), (A, B, C, D)) \<Rightarrow> (a0 + A, b0 + B, c0 + C, d0 + D))"

fun le_word32 :: "byte list \<Rightarrow> 32 word" where
  "le_word32 [] = 0"
| "le_word32 (b # bs) = ucast b OR push_bit 8 (le_word32 bs)"

fun chunks :: "nat \<Rightarrow> nat \<Rightarrow> 'a list \<Rightarrow> 'a list list" where
  "chunks k 0 xs = []"
| "chunks k (Suc n) xs = take k xs # chunks k n (drop k xs)"

definition le_bytes :: "nat \<Rightarrow> 'a::len word \<Rightarrow> byte list" where
  "le_bytes k w = map (\<lambda>i. ucast (drop_bit (8 * i) w)) [0..<k]"

definition md5_pad :: "byte list \<Rightarrow> byte list" where
  "md5_pad m =
     m @ [0x80] @ replicate ((119 - length m mod 64) mod 64) 0
       @ le_bytes 8 (of_nat (8 * length m) :: 64 word)"

definition md5_init :: md5_state where
  "md5_init = (0x67452301, 0xefcdab89, 0x98badcfe, 0x10325476)"

definition md5_digest :: "byte list \<Rightarrow> byte list" where
  "md5_digest m =
     (let p = md5_pad m;
          blocks = map (\<lambda>blk. map le_word32 (chunks 4 16 blk)) (chunks 64 (length p div 64) p)
      in case foldl md5_block md5_init blocks of
           (a, b, c, d) \<Rightarrow> concat (map (le_bytes 4) [a, b, c, d]))"

definition hex_digit :: "nat \<Rightarrow> char" where
  "hex_digit n = ''0123456789abcdef'' ! n"

definition hexdigest :: "byte list \<Rightarrow> string" where
  "hexdigest bs = concat (map (\<lambda>b. [hex_digit (unat b div 16), hex_digit (unat b mod 16)]) bs)"

text \<open>\<^verbatim>\<open>url.encode()\<close> on ASCII text.\<close>

definition encode :: "string \<Rightarrow> byte list" where
  "encode s = map of_char s"

definition md5_hex :: "string \<Rightarrow> string" where
  "md5_hex s = hexdigest (md5_digest (encode s))"

subsection \<open>Extension and filename\<close>

definition SUPPORTED_FORMATS :: "string list" where
  "SUPPORTED_FORMATS = [''.jpg'', ''.jpeg'', ''.png'', ''.webp'', ''.bmp'']"

definition ext_map :: "string \<rightharpoonup> string" where
  "ext_map =
     [''image/jpeg'' \<mapsto> ''.jpg'', ''image/png'' \<mapsto> ''.png'',
      ''image/webp'' \<mapsto> ''.webp'', ''image/bmp'' \<mapsto> ''.bmp'']"

text \<open>
  \<^verbatim>\<open>_get_image_extension\<close>. \<^verbatim>\<open>urlparse(url).path\<close> belongs to the standard
  library and is the parameter \<open>urlparse_path\<close>.
\<close>

definition get_image_extension :: "(string \<Rightarrow> string) \<Rightarrow> string \<Rightarrow> string option \<Rightarrow> string" where
  "get_image_extension urlparse_path url content_type =
     (let from_url =
            (case find (endswith (lower (urlparse_path url))) SUPPORTED_FORMATS of
               Some ext \<Rightarrow> ext
             | None \<Rightarrow> ''.jpg'')
      in case content_type of
           None \<Rightarrow> from_url
         | Some ct \<Rightarrow>
             if ct = [] then from_url
             else (case ext_map ct of Some ext \<Rightarrow> ext | None \<Rightarrow> from_url))"

text \<open>
  The character classes of the two regular expressions, on ASCII: \<^verbatim>\<open>\w\<close> is a
  letter, a digit or the underscore; \<^verbatim>\<open>\s\<close> is the space, the controls 9 to 13
  and 28 to 31.
\<close>

definition is_word_char :: "char \<Rightarrow> bool" where
  "is_word_char c =
     (let n = (of_char c :: nat)
      in (48 \<le> n \<and> n \<le> 57) \<or> (65 \<le> n \<and> n \<le> 90) \<or> (97 \<le> n \<and> n \<le> 122) \<or> n = 95)"

definition is_space_char :: "char \<Rightarrow> bool" where
  "is_space_char c =
     (let n = (of_char c :: nat) in (9 \<le> n \<and> n \<le> 13) \<or> (28 \<le> n \<and> n \<le> 32))"

text \<open>\<^verbatim>\<open>re.sub(r'[^\w\s-]', '', title)\<close>: the other characters are dropped.\<close>

definition strip_title :: "string \<Rightarrow> string" where
  "strip_title title = filter (\<lambda>c. is_word_char c \<or> is_space_char c \<or> c = CHR ''-'') title"

text \<open>
  \<^verbatim>\<open>re.sub(r'[-\s]+', '_', title)\<close>: every maximal run of hyphens and white space
  becomes one underscore. The flag says whether the previous character was in a run.
\<close>

fun collapse_runs :: "bool \<Rightarrow> string \<Rightarrow> string" where
  "collapse_runs in_run [] = []"
| "collapse_runs in_run (c # cs) =
     (if c = CHR ''-'' \<or> is_space_char c
      then (if in_run then collapse_runs True cs else CHR ''_'' # collapse_runs True cs)
      else c # collapse_runs False cs)"

text \<open>\<^verbatim>\<open>_generate_filename\<close>, lines 146-158.\<close>

definition generate_filename :: "string \<Rightarrow> metadata \<Rightarrow> string \<Rightarrow> string" where
  "generate_filename url metadata extension =
     (let url_hash = take 8 (md5_hex url)
      in case metadata ''title'' of
           None \<Rightarrow> ''wallpaper_'' @ url_hash @ extension
         | Some t \<Rightarrow>
             if t = [] then ''wallpaper_'' @ url_hash @ extension
             else (let title = take 50 (collapse_runs False (strip_title t))
                   in title @ ''_'' @ url_hash @ extension))"

section \<open>WallpaperScraper (scraper.py, lines 95-272)\<close>

text \<open>
  The statistics dictionary of lines 117-123. The key \<^verbatim>\<open>'total'\<close> is the field
  \<open>total_count\<close>.
\<close>

record Stats =
  total_count :: int
  downloaded :: int
  filtered :: int
  failed :: int
  categories :: "string \<rightharpoonup> int"

definition zero_stats :: Stats where
  "zero_stats = \<lparr>total_count = 0, downloaded = 0, filtered = 0, failed = 0, categories = Map.empty\<rparr>"

text \<open>
  A call of \<^verbatim>\<open>progress_callback\<close>: \<^verbatim>\<open>('filtered', url)\<close>,
  \<^verbatim>\<open>('downloaded', url, filepath)\<close> or \<^verbatim>\<open>('failed', url, reason)\<close>.
\<close>

datatype progress_event =
    EvFiltered string
  | EvDownloaded string string
  | EvFailed string string

text \<open>
  The scraper object. \<open>has_progress_callback\<close> says whether a callback was given;
  \<open>emitted\<close> is not a field of the Python object but the trace of the calls made to
  the callback so far, oldest first. The callback is taken not to raise.
\<close>

record WallpaperScraper =
  output_dir :: string
  image_filter :: ImageFilter
  categorizer :: category_table
  concurrent_downloads :: int
  timeout :: int
  has_progress_callback :: bool
  stats :: Stats
  emitted :: "progress_event list"

text \<open>
  \<^verbatim>\<open>__init__\<close>, lines 98-123 (the creation of the output directory is left out).
  A filter or categorizer object is always truthy, so only \<^verbatim>\<open>None\<close> is replaced.
\<close>

definition WallpaperScraper_init ::
  "string \<Rightarrow> ImageFilter option \<Rightarrow> category_table option \<Rightarrow> int \<Rightarrow> int \<Rightarrow> bool \<Rightarrow> WallpaperScraper"
where
  "WallpaperScraper_init out_dir flt cat k t cb =
     \<lparr>output_dir = out_dir,
      image_filter = (case flt of None \<Rightarrow> default_filter | Some f \<Rightarrow> f),
      categorizer = (case cat of None \<Rightarrow> Categorizer_init None | Some c \<Rightarrow> c),
      concurrent_downloads = k,
      timeout = t,
      has_progress_callback = cb,
      stats = zero_stats,
      emitted = []\<rparr>"

text \<open>
  What the scraper asks of the world, as parameters: the HTTP client, the image decoder,
  the file system and \<^verbatim>\<open>urlparse\<close>. A request raises or yields a response; reading
  the body of a response raises or yields bytes.
\<close>

record response =
  status :: int
  headers :: "string \<rightharpoonup> string"
  read_body :: "exn + byte list"

record env =
  session_get :: "string \<Rightarrow> exn + response"
  image_open :: "byte list \<Rightarrow> exn + int \<times> int"
  mkdir :: "string \<Rightarrow> exn option"
  write_file :: "string \<Rightarrow> byte list \<Rightarrow> exn option"
  url_path :: "string \<Rightarrow> string"

text \<open>The dictionary \<^verbatim>\<open>download_image\<close> returns on success (lines 206-211).\<close>

record download_result =
  res_url :: string
  res_filepath :: string
  res_category :: string
  res_size :: int

text \<open>\<^verbatim>\<open>if self.progress_callback: self.progress_callback(...)\<close>.\<close>

definition emit :: "progress_event \<Rightarrow> WallpaperScraper \<Rightarrow> WallpaperScraper" where
  "emit ev self = (if has_progress_callback self then self\<lparr>emitted := emitted self @ [ev]\<rparr> else self)"

text \<open>
  The three handlers of lines 213-230, tried in order: \<^verbatim>\<open>aiohttp.ClientError\<close>,
  \<^verbatim>\<open>OSError\<close> (of which \<^verbatim>\<open>UnidentifiedImageError\<close> is a subclass), then
  \<^verbatim>\<open>Exception\<close>. They differ in the reason text only.
\<close>

fun failure_reason :: "exn \<Rightarrow> string" where
  "failure_reason (ClientError m) = ''Network error: '' @ m"
| "failure_reason (OSError m) = ''File error: '' @ m"
| "failure_reason (UnidentifiedImageError m) = ''File error: '' @ m"
| "failure_reason (ValueError m) = ''Error: '' @ m"
| "failure_reason (OtherException m) = ''Error: '' @ m"

definition on_exception :: "WallpaperScraper \<Rightarrow> string \<Rightarrow> exn \<Rightarrow> WallpaperScraper" where
  "on_exception self url e =
     emit (EvFailed url (failure_reason e))
       (self\<lparr>stats := (stats self)\<lparr>failed := failed (stats self) + 1\<rparr>\<rparr>)"

text \<open>\<^verbatim>\<open>self.output_dir / category\<close> for a relative name.\<close>

definition path_join :: "string \<Rightarrow> string \<Rightarrow> string" where
  "path_join d name = d @ ''/'' @ name"

text \<open>\<^verbatim>\<open>d.get(key, 0)\<close> on the category histogram.\<close>

definition get_or_zero :: "(string \<rightharpoonup> int) \<Rightarrow> string \<Rightarrow> int" where
  "get_or_zero d key = (case d key of None \<Rightarrow> 0 | Some n \<Rightarrow> n)"

text \<open>Lines 200-201: one more download, one more in its category.\<close>

definition count_download :: "string \<Rightarrow> Stats \<Rightarrow> Stats" where
  "count_download category st =
     st\<lparr>downloaded := downloaded st + 1,
        categories := (categories st)(category \<mapsto> get_or_zero (categories st) category + 1)\<rparr>"

text \<open>
  The body of the \<^verbatim>\<open>try\<close> of \<^verbatim>\<open>download_image\<close>, lines 168-211: \<open>Inl e\<close> when
  the exception \<open>e\<close> leaves it, otherwise the returned value and the scraper after it.
  Every statement that can raise comes before the first update of the statistics.
\<close>

definition download_body ::
  "env \<Rightarrow> WallpaperScraper \<Rightarrow> string \<Rightarrow> metadata \<Rightarrow> exn + (download_result option \<times> WallpaperScraper)"
where
  "download_body world self url metadata =
     (case session_get world url of
        Inl e \<Rightarrow> Inl e
      | Inr resp \<Rightarrow>
          if status resp \<noteq> 200 then Inr (None, self)
          else
            let content_type = (case headers resp ''content-type'' of None \<Rightarrow> [] | Some v \<Rightarrow> v)
            in case read_body resp of
                 Inl e \<Rightarrow> Inl e
               | Inr image_data \<Rightarrow>
                   (case check_image (image_filter self) (image_open world) image_data (Some metadata) of
                      Inl e \<Rightarrow> Inl e
                    | Inr False \<Rightarrow>
                        Inr (None,
                             emit (EvFiltered url)
                               (self\<lparr>stats := (stats self)\<lparr>filtered := filtered (stats self) + 1\<rparr>\<rparr>))
                    | Inr True \<Rightarrow>
                        let category = categorize (categorizer self) metadata;
                            category_dir = path_join (output_dir self) category
                        in case mkdir world category_dir of
                             Some e \<Rightarrow> Inl e
                           | None \<Rightarrow>
                               let extension = get_image_extension (url_path world) url (Some content_type);
                                   filename = generate_filename url metadata extension;
                                   filepath = path_join category_dir filename
                               in case write_file world filepath image_data of
                                    Some e \<Rightarrow> Inl e
                                  | None \<Rightarrow>
                                      Inr (Some \<lparr>res_url = url, res_filepath = filepath,
                                                 res_category = category,
                                                 res_size = int (length image_data)\<rparr>,
                                           emit (EvDownloaded url filepath)
                                             (self\<lparr>stats := count_download category (stats self)\<rparr>))))"

text \<open>
  \<^verbatim>\<open>download_image\<close>, lines 160-230: the returned value (\<open>None\<close> for Python's
  \<^verbatim>\<open>None\<close>) and the scraper after the call.
\<close>

definition download_image ::
  "env \<Rightarrow> WallpaperScraper \<Rightarrow> string \<Rightarrow> metadata option \<Rightarrow> download_result option \<times> WallpaperScraper"
where
  "download_image world self url metadata =
     (let md = (case metadata of None \<Rightarrow> Map.empty | Some m \<Rightarrow> m)(''url'' \<mapsto> url)
      in case download_body world self url md of
           Inl e \<Rightarrow> (None, on_exception self url e)
         | Inr r \<Rightarrow> r)"

text \<open>
  How a call of \<^verbatim>\<open>download_images\<close> ends: it returns, an exception leaves it, or
  it never returns.
\<close>

datatype 'a outcome = Returns 'a | Raises exn 'a | Blocks 'a

text \<open>Line 237, the only statement of \<^verbatim>\<open>download_images\<close> that touches the statistics.\<close>

definition set_total :: "WallpaperScraper \<Rightarrow> string list \<Rightarrow> WallpaperScraper" where
  "set_total self image_urls =
     self\<lparr>stats := (stats self)\<lparr>total_count := int (length image_urls)\<rparr>\<rparr>"

text \<open>
  Lines 234-235 and 256-259: the default metadata and the pairing of URLs with metadata.
  \<^verbatim>\<open>zip\<close> stops at the shorter list.
\<close>

definition tasks_of :: "string list \<Rightarrow> metadata list option \<Rightarrow> (string \<times> metadata) list" where
  "tasks_of image_urls metadata_list =
     zip image_urls
       (case metadata_list of
          None \<Rightarrow> replicate (length image_urls) Map.empty
        | Some l \<Rightarrow> l)"

text \<open>
  The tasks of lines 252-261 run to completion one after the other here. The counters
  only ever grow by one per task, so their final values do not depend on how the event
  loop interleaves the tasks.
\<close>

fun run_tasks :: "env \<Rightarrow> WallpaperScraper \<Rightarrow> (string \<times> metadata) list \<Rightarrow> WallpaperScraper" where
  "run_tasks world self [] = self"
| "run_tasks world self ((url, metadata) # tasks) =
     run_tasks world (snd (download_image world self url (Some metadata))) tasks"

text \<open>
  \<^verbatim>\<open>download_images\<close>, lines 232-264. \<^verbatim>\<open>asyncio.Semaphore(n)\<close> raises
  \<^verbatim>\<open>ValueError\<close> for a negative \<open>n\<close>; with \<open>n = 0\<close> no task is ever admitted, so
  \<^verbatim>\<open>gather\<close> never completes unless there is no task at all. The HTTP session
  (opened at lines 240-246, closed at line 264) is not modelled.
\<close>

definition download_images ::
  "env \<Rightarrow> WallpaperScraper \<Rightarrow> string list \<Rightarrow> metadata list option \<Rightarrow> WallpaperScraper outcome"
where
  "download_images world self image_urls metadata_list =
     (let self1 = set_total self image_urls;
          tasks = tasks_of image_urls metadata_list
      in if concurrent_downloads self < 0
         then Raises (ValueError ''Semaphore initial value must be >= 0'') self1
         else if concurrent_downloads self = 0 \<and> tasks \<noteq> [] then Blocks self1
         else Returns (run_tasks world self1 tasks))"

text \<open>\<^verbatim>\<open>get_stats\<close>, lines 270-272.\<close>

definition get_stats :: "WallpaperScraper \<Rightarrow> Stats" where
  "get_stats self = stats self"

section \<open>Admission of the tasks (scraper.py, lines 250-261)\<close>

text \<open>
  Every task is \<^verbatim>\<open>async with semaphore: await self.download_image(url, metadata)\<close>.
  A task is \<open>Pending\<close> until it holds a permit of the semaphore, \<open>Fetching\<close> while it
  is inside \<^verbatim>\<open>download_image\<close>, and \<open>Done\<close> once it has given the permit back.
  \<open>sem_value\<close> is the counter of \<^verbatim>\<open>asyncio.Semaphore\<close>: acquiring takes one
  from a positive counter and otherwise waits, releasing adds one.
\<close>

datatype phase = Pending | Fetching | Done

record run_state =
  sem_value :: nat
  phases :: "phase list"
  scraper :: WallpaperScraper

text \<open>
  The state after line 250, when the semaphore exists and no task has started. There is
  none for a negative limit, for which the constructor of the semaphore raises.
\<close>

definition initial_state ::
  "WallpaperScraper \<Rightarrow> string list \<Rightarrow> metadata list option \<Rightarrow> run_state option"
where
  "initial_state self image_urls metadata_list =
     (if concurrent_downloads self < 0 then None
      else Some \<lparr>sem_value = nat (concurrent_downloads self),
                 phases = replicate (length (tasks_of image_urls metadata_list)) Pending,
                 scraper = set_total self image_urls\<rparr>)"

text \<open>
  One step of the event loop: some pending task is admitted, or some task in flight
  finishes, which applies the effect of its \<^verbatim>\<open>download_image\<close> and releases the
  permit. Any pending task may be the next one admitted, which covers the first-come
  order of the real semaphore.
\<close>

inductive step :: "env \<Rightarrow> (string \<times> metadata) list \<Rightarrow> run_state \<Rightarrow> run_state \<Rightarrow> bool"
  for world :: env and tasks :: "(string \<times> metadata) list"
where
  acquire:
    "i < length (phases c) \<Longrightarrow> phases c ! i = Pending \<Longrightarrow> 0 < sem_value c \<Longrightarrow>
     step world tasks c
       (c\<lparr>sem_value := sem_value c - 1, phases := (phases c)[i := Fetching]\<rparr>)"
| release:
    "i < length (phases c) \<Longrightarrow> i < length tasks \<Longrightarrow> phases c ! i = Fetching \<Longrightarrow>
     step world tasks c
       (c\<lparr>sem_value := sem_value c + 1, phases := (phases c)[i := Done],
          scraper := snd (download_image world (scraper c) (fst (tasks ! i)) (Some (snd (tasks ! i))))\<rparr>)"

inductive reachable :: "env \<Rightarrow> (string \<times> metadata) list \<Rightarrow> run_state \<Rightarrow> run_state \<Rightarrow> bool"
  for world :: env and tasks :: "(string \<times> metadata) list" and c0 :: run_state
where
  start: "reachable world tasks c0 c0"
| advance: "reachable world tasks c0 c \<Longrightarrow> step world tasks c c' \<Longrightarrow> reachable world tasks c0 c'"

text \<open>The number of tasks inside \<^verbatim>\<open>download_image\<close>.\<close>

definition in_flight :: "run_state \<Rightarrow> nat" where
  "in_flight c = length (filter (\<lambda>p. p = Fetching) (phases c))"

section \<open>Page extractor (scraper.py, lines 275-303)\<close>

text \<open>
  The parse of the markup belongs to BeautifulSoup: the input here is what
  \<^verbatim>\<open>soup.find_all('img')\<close> yields, the \<^verbatim>\<open>img\<close> elements in document order, each
  a dictionary of its attributes. \<^verbatim>\<open>validators.url\<close> and \<^verbatim>\<open>urljoin\<close> are
  parameters too.
\<close>

type_synonym img_tag = "string \<rightharpoonup> string"

text \<open>The dictionary \<^verbatim>\<open>{'url': src, 'metadata': metadata}\<close>.\<close>

record candidate =
  cand_url :: string
  cand_metadata :: metadata

text \<open>
  Python's \<^verbatim>\<open>a or b\<close> on two optional strings: \<open>a\<close> when it is truthy, that is
  neither \<^verbatim>\<open>None\<close> nor empty, and \<open>b\<close> otherwise.
\<close>

definition py_or :: "string option \<Rightarrow> string option \<Rightarrow> string option" where
  "py_or a b = (case a of None \<Rightarrow> b | Some s \<Rightarrow> if s = [] then b else Some s)"

text \<open>\<^verbatim>\<open>img.get(key, '')\<close>.\<close>

definition get_or_empty :: "img_tag \<Rightarrow> string \<Rightarrow> string" where
  "get_or_empty img key = (case img key of None \<Rightarrow> [] | Some v \<Rightarrow> v)"

text \<open>Lines 288-289: a relative URL is resolved against a truthy base URL.\<close>

definition resolve_src :: "(string \<Rightarrow> string \<Rightarrow> string) \<Rightarrow> string option \<Rightarrow> string \<Rightarrow> string" where
  "resolve_src urljoin base_url src =
     (case base_url of
        None \<Rightarrow> src
      | Some b \<Rightarrow> if b \<noteq> [] \<and> \<not> startswith src ''http'' then urljoin b src else src)"

text \<open>Lines 295-301.\<close>

definition make_candidate :: "img_tag \<Rightarrow> string \<Rightarrow> candidate" where
  "make_candidate img src =
     \<lparr>cand_url = src,
      cand_metadata = [''title'' \<mapsto> get_or_empty img ''title'', ''alt'' \<mapsto> get_or_empty img ''alt'',
                       ''description'' \<mapsto> []]\<rparr>"

fun extract_image_urls ::
  "(string \<Rightarrow> bool) \<Rightarrow> (string \<Rightarrow> string \<Rightarrow> string) \<Rightarrow> img_tag list \<Rightarrow> string option \<Rightarrow> candidate list"
where
  "extract_image_urls validators_url urljoin [] base_url = []"
| "extract_image_urls validators_url urljoin (img # imgs) base_url =
     (let images = extract_image_urls validators_url urljoin imgs base_url
      in case py_or (img ''src'') (img ''data-src'') of
           None \<Rightarrow> images
         | Some src0 \<Rightarrow>
             if src0 = [] then images
             else let src = resolve_src urljoin base_url src0
                  in if \<not> validators_url src then images
                     else make_candidate img src # images)"

section \<open>Properties of the filter\<close>

text \<open>
  C5. A byte buffer shorter than \<open>min_file_size\<close> is rejected whatever the decoder
  would report for it, since the size test comes first.
\<close>

theorem check_image_below_min_file_size:
  "int (length image_data) < min_file_size self \<Longrightarrow>
   check_image self Image_open image_data metadata = Inr False"
  by (simp add: check_image_def)

text \<open>
  The example of the specification: 50,000 bytes decoding to 3840x2160 under the default
  thresholds.
\<close>

theorem check_image_below_min_file_size_witness:
  "int (length (replicate 50000 (0::byte))) < min_file_size default_filter \<and>
   check_image default_filter (\<lambda>_. Inr (3840, 2160)) (replicate 50000 0) None = Inr False"
proof -
  have small: "int (length (replicate 50000 (0::byte))) < min_file_size default_filter"
    by (simp add: default_filter_def DEFAULT_MIN_FILE_SIZE_def)
  from small check_image_below_min_file_size [OF small, of "\<lambda>_. Inr (3840, 2160)" None]
  show ?thesis by simp
qed

text \<open>
  Line 51 taken alone, for a decoder that would hand back a height of 0: the aspect ratio
  is taken as 0, and the answer is that of the threshold tests at that ratio. The
  imaging library hands back no such size (see \<open>PIL_Image_open\<close>), so in the running
  program this branch is not what decides such a file.
\<close>

lemma check_image_aspect_ratio_at_height_zero:
  "Image_open image_data = Inr (width, 0) \<Longrightarrow>
   check_image self Image_open image_data metadata
     = Inr (min_file_size self \<le> int (length image_data) \<and> min_width self \<le> width \<and>
            min_height self \<le> 0 \<and> min_aspect_ratio self \<le> 0 \<and> 0 \<le> max_aspect_ratio self)"
  by (auto simp: check_image_def)



text \<open>
  C10. The metadata argument is never read: two calls that differ only in it give the
  same result.
\<close>

theorem check_image_ignores_metadata:
  "check_image self Image_open image_data metadata1 =
   check_image self Image_open image_data metadata2"
  by (simp add: check_image_def)

section \<open>Properties of the categorizer\<close>

text \<open>
  \<open>py_max\<close> returns the first item of greatest key: everything before it has a strictly
  smaller key, everything after it a key that is not greater.
\<close>

lemma py_max_split:
  "\<forall>e\<in>set pre. key e < key b \<Longrightarrow> \<forall>e\<in>set post. key e \<le> key b \<Longrightarrow>
   \<exists>pre' post'. pre @ b # post @ xs = pre' @ py_max key b xs # post' \<and>
     (\<forall>e\<in>set pre'. key e < key (py_max key b xs)) \<and>
     (\<forall>e\<in>set post'. key e \<le> key (py_max key b xs))"
proof (induction xs arbitrary: pre b post)
  case Nil
  then show ?case by auto
next
  case (Cons x xs)
  show ?case
  proof (cases "key x > key b")
    case True
    have "\<forall>e\<in>set (pre @ b # post). key e < key x"
      using Cons.prems True by fastforce
    from Cons.IH [OF this, of "[]"] True show ?thesis by simp
  next
    case False
    have "\<forall>e\<in>set (post @ [x]). key e \<le> key b"
      using Cons.prems False by auto
    from Cons.IH [OF Cons.prems(1) this] False show ?thesis by simp
  qed
qed

lemma filter_split:
  "filter P l = pre @ r # post \<Longrightarrow>
   \<exists>lp ls. l = lp @ r # ls \<and> filter P lp = pre \<and> filter P ls = post"
proof (induction l arbitrary: pre)
  case Nil
  then show ?case by simp
next
  case (Cons a l)
  show ?case
  proof (cases "P a")
    case False
    with Cons.prems have "filter P l = pre @ r # post" by simp
    from Cons.IH [OF this] obtain lp ls where "l = lp @ r # ls" "filter P lp = pre" "filter P ls = post"
      by blast
    with False have "a # l = (a # lp) @ r # ls \<and> filter P (a # lp) = pre \<and> filter P ls = post"
      by simp
    then show ?thesis by blast
  next
    case True
    show ?thesis
    proof (cases pre)
      case Nil
      with True Cons.prems have "a # l = [] @ r # l \<and> filter P [] = pre \<and> filter P l = post"
        by simp
      then show ?thesis by blast
    next
      case (Cons p pre')
      with True Cons.prems have a: "a = p" and "filter P l = pre' @ r # post" by simp_all
      from Cons.IH [OF this(2)] obtain lp ls where "l = lp @ r # ls" "filter P lp = pre'" "filter P ls = post"
        by blast
      with True a Cons have "a # l = (a # lp) @ r # ls \<and> filter P (a # lp) = pre \<and> filter P ls = post"
        by simp
      then show ?thesis by blast
    qed
  qed
qed


lemma categorize_all_zero:
  "(\<forall>e\<in>set table. keyword_score (snd e) (combined_text metadata) = 0) \<Longrightarrow>
   categorize table metadata = ''uncategorized''"
proof -
  assume z: "\<forall>e\<in>set table. keyword_score (snd e) (combined_text metadata) = 0"
  have "category_scores table (combined_text metadata) = []"
    unfolding category_scores_def using z by (simp add: filter_empty_conv)
  then show ?thesis by (simp add: categorize_def)
qed

lemma categorize_some_positive:
  assumes pos: "\<exists>e\<in>set table. 0 < keyword_score (snd e) (combined_text metadata)"
  shows "\<exists>pre c kws post. table = pre @ (c, kws) # post \<and> categorize table metadata = c \<and>
           0 < keyword_score kws (combined_text metadata) \<and>
           (\<forall>e\<in>set pre. keyword_score (snd e) (combined_text metadata)
                          < keyword_score kws (combined_text metadata)) \<and>
           (\<forall>e\<in>set post. keyword_score (snd e) (combined_text metadata)
                          \<le> keyword_score kws (combined_text metadata))"
proof -
  define t where "t = combined_text metadata"
  define f where "f = (\<lambda>entry :: string \<times> string list. (fst entry, keyword_score (snd entry) t))"
  define P where "P = (\<lambda>entry :: string \<times> nat. snd entry > 0)"
  have cs: "category_scores table t = filter P (map f table)"
    by (simp add: category_scores_def f_def P_def)
  from pos have "filter P (map f table) \<noteq> []"
    by (auto simp: filter_empty_conv f_def P_def t_def)
  then obtain x xs where xxs: "filter P (map f table) = x # xs"
    by (cases "filter P (map f table)") auto
  define r where "r = py_max snd x xs"
  have cat: "categorize table metadata = fst r"
    using cs xxs by (simp add: categorize_def t_def r_def)
  from py_max_split [of "[]" snd x "[]" xs]
  obtain pre' post' where sp: "x # xs = pre' @ r # post'"
    and lt: "\<forall>e\<in>set pre'. snd e < snd r" and le: "\<forall>e\<in>set post'. snd e \<le> snd r"
    unfolding r_def by auto
  from sp xxs have "filter P (map f table) = pre' @ r # post'" by simp
  from filter_split [OF this] obtain lp ls
    where m: "map f table = lp @ r # ls" and flp: "filter P lp = pre'" and fls: "filter P ls = post'"
    by blast
  from m obtain tp e ts where tab: "table = tp @ e # ts"
    and mp: "map f tp = lp" and fe: "f e = r" and ms: "map f ts = ls"
    by (auto simp: map_eq_append_conv map_eq_Cons_conv)
  have "r \<in> set (filter P (map f table))" using sp xxs by simp
  then have rpos: "0 < snd r" by (simp add: P_def)
  have sr: "snd r = keyword_score (snd e) t" using fe by (auto simp: f_def)
  have pre_lt: "keyword_score (snd a) t < snd r" if "a \<in> set tp" for a
  proof (cases "P (f a)")
    case True
    with that mp flp have "f a \<in> set pre'" by auto
    with lt show ?thesis by (auto simp: f_def)
  next
    case False
    then show ?thesis using rpos by (simp add: P_def f_def)
  qed
  have post_le: "keyword_score (snd a) t \<le> snd r" if "a \<in> set ts" for a
  proof (cases "P (f a)")
    case True
    with that ms fls have "f a \<in> set post'" by auto
    with le show ?thesis by (auto simp: f_def)
  next
    case False
    then show ?thesis by (simp add: P_def f_def)
  qed
  have "table = tp @ (fst e, snd e) # ts \<and> categorize table metadata = fst e \<and>
        0 < keyword_score (snd e) t \<and>
        (\<forall>a\<in>set tp. keyword_score (snd a) t < keyword_score (snd e) t) \<and>
        (\<forall>a\<in>set ts. keyword_score (snd a) t \<le> keyword_score (snd e) t)"
    using tab cat fe rpos sr pre_lt post_le by (auto simp: f_def)
  then show ?thesis unfolding t_def by blast
qed

lemma categorize_example:
  "categorize CATEGORY_KEYWORDS [''title'' \<mapsto> ''Deep Space Nebula''] = ''space''"
  by code_simp

text \<open>
  C3, amended. The score of a category is the number of its keywords that occur in the
  search text. When some category scores above 0, \<open>categorize\<close> returns the first
  entry of the table whose score is maximal: every entry before it scores strictly less,
  every entry after it scores at most as much. When every category scores 0 it returns
  \<open>''uncategorized''\<close>; the converse holds for a table that has no category of that very
  name. For the title "Deep Space Nebula" and the default table the result is
  \<open>''space''\<close>.
\<close>

theorem categorize_first_maximal:
  "((\<forall>e\<in>set table. keyword_score (snd e) (combined_text metadata) = 0) \<longrightarrow>
      categorize table metadata = ''uncategorized'') \<and>
   ((\<exists>e\<in>set table. 0 < keyword_score (snd e) (combined_text metadata)) \<longrightarrow>
      (\<exists>pre c kws post. table = pre @ (c, kws) # post \<and> categorize table metadata = c \<and>
         0 < keyword_score kws (combined_text metadata) \<and>
         (\<forall>e\<in>set pre. keyword_score (snd e) (combined_text metadata)
                        < keyword_score kws (combined_text metadata)) \<and>
         (\<forall>e\<in>set post. keyword_score (snd e) (combined_text metadata)
                        \<le> keyword_score kws (combined_text metadata)))) \<and>
   (''uncategorized'' \<notin> fst ` set table \<longrightarrow>
      (categorize table metadata = ''uncategorized'') =
      (\<forall>e\<in>set table. keyword_score (snd e) (combined_text metadata) = 0)) \<and>
   categorize CATEGORY_KEYWORDS [''title'' \<mapsto> ''Deep Space Nebula''] = ''space''"
proof (intro conjI impI)
  assume "\<forall>e\<in>set table. keyword_score (snd e) (combined_text metadata) = 0"
  then show "categorize table metadata = ''uncategorized''" by (rule categorize_all_zero)
next
  assume "\<exists>e\<in>set table. 0 < keyword_score (snd e) (combined_text metadata)"
  then show "\<exists>pre c kws post. table = pre @ (c, kws) # post \<and> categorize table metadata = c \<and>
         0 < keyword_score kws (combined_text metadata) \<and>
         (\<forall>e\<in>set pre. keyword_score (snd e) (combined_text metadata)
                        < keyword_score kws (combined_text metadata)) \<and>
         (\<forall>e\<in>set post. keyword_score (snd e) (combined_text metadata)
                        \<le> keyword_score kws (combined_text metadata))"
    by (rule categorize_some_positive)
next
  assume nu: "''uncategorized'' \<notin> fst ` set table"
  show "(categorize table metadata = ''uncategorized'') =
      (\<forall>e\<in>set table. keyword_score (snd e) (combined_text metadata) = 0)"
  proof
    assume u: "categorize table metadata = ''uncategorized''"
    show "\<forall>e\<in>set table. keyword_score (snd e) (combined_text metadata) = 0"
    proof (rule ccontr)
      assume "\<not> (\<forall>e\<in>set table. keyword_score (snd e) (combined_text metadata) = 0)"
      then have "\<exists>e\<in>set table. 0 < keyword_score (snd e) (combined_text metadata)" by auto
      from categorize_some_positive [OF this] obtain pre c kws post
        where "table = pre @ (c, kws) # post" "categorize table metadata = c" by blast
      with u have "''uncategorized'' \<in> fst ` set table" by force
      with nu show False by simp
    qed
  next
    assume "\<forall>e\<in>set table. keyword_score (snd e) (combined_text metadata) = 0"
    then show "categorize table metadata = ''uncategorized''" by (rule categorize_all_zero)
  qed
next
  show "categorize CATEGORY_KEYWORDS [''title'' \<mapsto> ''Deep Space Nebula''] = ''space''"
    by (rule categorize_example)
qed

text \<open>
  The theorem at the default table: with no metadata every score is 0, with the title
  "Deep Space Nebula" the category space scores 2 and all others 0.
\<close>

theorem categorize_first_maximal_witness:
  "map (\<lambda>e. keyword_score (snd e) (combined_text Map.empty)) CATEGORY_KEYWORDS = [0, 0, 0, 0, 0, 0, 0] \<and>
   categorize CATEGORY_KEYWORDS Map.empty = ''uncategorized'' \<and>
   map (\<lambda>e. keyword_score (snd e) (combined_text [''title'' \<mapsto> ''Deep Space Nebula'']))
     CATEGORY_KEYWORDS = [0, 2, 0, 0, 0, 0, 0] \<and>
   ''uncategorized'' \<notin> fst ` set CATEGORY_KEYWORDS \<and>
   categorize CATEGORY_KEYWORDS [''title'' \<mapsto> ''Deep Space Nebula''] \<noteq> ''uncategorized'' \<and>
   (\<exists>pre kws post. CATEGORY_KEYWORDS = pre @ (''space'', kws) # post \<and>
      keyword_score kws (combined_text [''title'' \<mapsto> ''Deep Space Nebula'']) = 2)"
proof -
  let ?md = "[''title'' \<mapsto> ''Deep Space Nebula'']"
  have z: "map (\<lambda>e. keyword_score (snd e) (combined_text Map.empty)) CATEGORY_KEYWORDS
             = [0, 0, 0, 0, 0, 0, 0]"
    by code_simp
  then have "list_all (\<lambda>s. s = 0)
     (map (\<lambda>e. keyword_score (snd e) (combined_text Map.empty)) CATEGORY_KEYWORDS)" by simp
  then have allz: "\<forall>e\<in>set CATEGORY_KEYWORDS. keyword_score (snd e) (combined_text Map.empty) = 0"
    by (simp add: list_all_iff)
  have u: "categorize CATEGORY_KEYWORDS Map.empty = ''uncategorized''"
    using categorize_first_maximal [of CATEGORY_KEYWORDS Map.empty] allz by blast
  have s: "map (\<lambda>e. keyword_score (snd e) (combined_text ?md)) CATEGORY_KEYWORDS
             = [0, 2, 0, 0, 0, 0, 0]"
    by code_simp
  have nu: "''uncategorized'' \<notin> fst ` set CATEGORY_KEYWORDS"
    by (simp add: CATEGORY_KEYWORDS_def)
  have "\<not> (\<forall>e\<in>set CATEGORY_KEYWORDS. keyword_score (snd e) (combined_text ?md) = 0)"
  proof
    assume "\<forall>e\<in>set CATEGORY_KEYWORDS. keyword_score (snd e) (combined_text ?md) = 0"
    then have "\<forall>x\<in>set (map (\<lambda>e. keyword_score (snd e) (combined_text ?md)) CATEGORY_KEYWORDS). x = 0"
      by simp
    with s show False by simp
  qed
  with categorize_first_maximal [of CATEGORY_KEYWORDS ?md] nu
  have c: "categorize CATEGORY_KEYWORDS ?md \<noteq> ''uncategorized''" by blast
  have sp: "keyword_score (snd (CATEGORY_KEYWORDS ! 1)) (combined_text ?md) = 2"
    by code_simp
  have "CATEGORY_KEYWORDS = take 1 CATEGORY_KEYWORDS @ (''space'', snd (CATEGORY_KEYWORDS ! 1)) # drop 2 CATEGORY_KEYWORDS"
    by (simp add: CATEGORY_KEYWORDS_def)
  with sp have "\<exists>pre kws post. CATEGORY_KEYWORDS = pre @ (''space'', kws) # post \<and>
      keyword_score kws (combined_text ?md) = 2" by blast
  with z u s nu c show ?thesis by blast
qed

text \<open>
  C3, as stated, fails in its "exactly when": a table may name a category
  \<open>''uncategorized''\<close>, which is then returned with a positive score.
\<close>

theorem categorize_uncategorized_counterexample:
  "categorize [(''uncategorized'', [''cat''])] [''title'' \<mapsto> ''cat''] = ''uncategorized'' \<and>
   keyword_score [''cat''] (combined_text [''title'' \<mapsto> ''cat'']) = 1"
  by code_simp

section \<open>Properties of the naming policy\<close>

text \<open>The digest agrees with the reference value of RFC 1321 for the empty message.\<close>

lemma md5_test_vector_empty: "md5_hex '''' = ''d41d8cd98f00b204e9800998ecf8427e''"
  by code_simp

lemma md5_prefix_35790: "take 8 (md5_hex ''https://x.com/35790.jpg'') = ''8cbcc24e''"
  by code_simp

lemma md5_prefix_41146: "take 8 (md5_hex ''https://x.com/41146.jpg'') = ''8cbcc24e''"
  by code_simp

text \<open>
  How far the names can coincide: for two candidates with the same title (or both
  without one) and the same extension, the filenames are equal exactly when the first
  eight hex digits of the MD5 digests of the two URLs are equal.
\<close>

lemma generate_filename_same_title:
  "metadata1 ''title'' = metadata2 ''title'' \<Longrightarrow>
   (generate_filename url1 metadata1 extension = generate_filename url2 metadata2 extension) =
   (take 8 (md5_hex url1) = take 8 (md5_hex url2))"
  by (simp add: generate_filename_def Let_def split: option.split)

text \<open>
  C4, at the failing input. The docstring of \<^verbatim>\<open>_generate_filename\<close> promises a unique
  filename, and the hash component has 32 bits. The two distinct URLs below have digests
  that start with the same eight hex digits, so they get one filename: with the metadata
  \<^verbatim>\<open>download_image\<close> builds for a candidate that has none (its \<^verbatim>\<open>url\<close> only), and
  with the same title on both.
\<close>

theorem generate_filename_not_unique:
  "''https://x.com/35790.jpg'' \<noteq> ''https://x.com/41146.jpg'' \<and>
   generate_filename ''https://x.com/35790.jpg'' [''url'' \<mapsto> ''https://x.com/35790.jpg''] ''.jpg''
     = ''wallpaper_8cbcc24e.jpg'' \<and>
   generate_filename ''https://x.com/41146.jpg'' [''url'' \<mapsto> ''https://x.com/41146.jpg''] ''.jpg''
     = ''wallpaper_8cbcc24e.jpg'' \<and>
   generate_filename ''https://x.com/35790.jpg''
       [''title'' \<mapsto> ''Blue Nebula'', ''url'' \<mapsto> ''https://x.com/35790.jpg''] ''.jpg''
     = ''Blue_Nebula_8cbcc24e.jpg'' \<and>
   generate_filename ''https://x.com/41146.jpg''
       [''title'' \<mapsto> ''Blue Nebula'', ''url'' \<mapsto> ''https://x.com/41146.jpg''] ''.jpg''
     = ''Blue_Nebula_8cbcc24e.jpg''"
  by (simp add: generate_filename_def md5_prefix_35790 md5_prefix_41146 strip_title_def
      is_word_char_def is_space_char_def)

section \<open>Properties of the fetch coordinator\<close>

text \<open>
  C2. A candidate whose response has a status other than 200 makes \<open>download_image\<close>
  return \<open>None\<close> and leave the scraper as it was: no counter moves, the histogram is
  the same and no progress event is emitted. In a run of \<open>download_images\<close> over this
  one candidate the only change is \<open>total_count\<close>, set to 1.
\<close>

theorem download_image_non_200:
  "session_get world url = Inr resp \<Longrightarrow> status resp \<noteq> 200 \<Longrightarrow>
   download_image world self url metadata = (None, self) \<and>
   (0 < concurrent_downloads self \<longrightarrow>
      download_images world self [url] None
        = Returns (self\<lparr>stats := (stats self)\<lparr>total_count := 1\<rparr>\<rparr>))"
  by (simp add: download_image_def download_body_def download_images_def tasks_of_def
      set_total_def)

text \<open>The theorem at a server that answers 404 to a fresh scraper with a callback.\<close>

theorem download_image_non_200_witness:
  "session_get
     \<lparr>session_get = (\<lambda>u. Inr \<lparr>status = 404, headers = Map.empty, read_body = Inr []\<rparr>),
      image_open = (\<lambda>b. Inr (3840, 2160)), mkdir = (\<lambda>p. None),
      write_file = (\<lambda>p b. None), url_path = (\<lambda>u. u)\<rparr> ''http://example.com/a.jpg''
     = Inr \<lparr>status = 404, headers = Map.empty, read_body = Inr []\<rparr> \<and>
   status \<lparr>status = 404, headers = Map.empty, read_body = (Inr [] :: exn + byte list)\<rparr> \<noteq> 200 \<and>
   0 < concurrent_downloads (WallpaperScraper_init ''wallpapers'' None None 5 30 True) \<and>
   download_image
     \<lparr>session_get = (\<lambda>u. Inr \<lparr>status = 404, headers = Map.empty, read_body = Inr []\<rparr>),
      image_open = (\<lambda>b. Inr (3840, 2160)), mkdir = (\<lambda>p. None),
      write_file = (\<lambda>p b. None), url_path = (\<lambda>u. u)\<rparr>
     (WallpaperScraper_init ''wallpapers'' None None 5 30 True) ''http://example.com/a.jpg'' None
     = (None, WallpaperScraper_init ''wallpapers'' None None 5 30 True) \<and>
   download_images
     \<lparr>session_get = (\<lambda>u. Inr \<lparr>status = 404, headers = Map.empty, read_body = Inr []\<rparr>),
      image_open = (\<lambda>b. Inr (3840, 2160)), mkdir = (\<lambda>p. None),
      write_file = (\<lambda>p b. None), url_path = (\<lambda>u. u)\<rparr>
     (WallpaperScraper_init ''wallpapers'' None None 5 30 True) [''http://example.com/a.jpg''] None
     = Returns ((WallpaperScraper_init ''wallpapers'' None None 5 30 True)
         \<lparr>stats := zero_stats\<lparr>total_count := 1\<rparr>\<rparr>)"
proof -
  let ?resp = "\<lparr>status = 404, headers = Map.empty, read_body = (Inr [] :: exn + byte list)\<rparr>"
  let ?world = "\<lparr>session_get = (\<lambda>u. Inr ?resp),
      image_open = (\<lambda>b. Inr (3840, 2160)), mkdir = (\<lambda>p. None),
      write_file = (\<lambda>p b. None), url_path = (\<lambda>u. u)\<rparr>"
  let ?self = "WallpaperScraper_init ''wallpapers'' None None 5 30 True"
  have get: "session_get ?world ''http://example.com/a.jpg'' = Inr ?resp" by simp
  have st: "status ?resp \<noteq> 200" by simp
  have k: "0 < concurrent_downloads ?self" by (simp add: WallpaperScraper_init_def)
  have z: "stats ?self = zero_stats" by (simp add: WallpaperScraper_init_def)
  from download_image_non_200 [OF get st, of ?self None] k z
  show ?thesis by simp
qed

text \<open>
  C1, at the failing input: one candidate, answered with status 404, given to a fresh
  scraper. The run returns with \<open>total_count = 1\<close> while the three outcome counters sum
  to 0, and no progress event was emitted.
\<close>

theorem download_images_non_200_breaks_total:
  "download_images
     \<lparr>session_get = (\<lambda>u. Inr \<lparr>status = 404, headers = Map.empty, read_body = Inr []\<rparr>),
      image_open = (\<lambda>b. Inr (3840, 2160)), mkdir = (\<lambda>p. None),
      write_file = (\<lambda>p b. None), url_path = (\<lambda>u. u)\<rparr>
     (WallpaperScraper_init ''wallpapers'' None None 5 30 True) [''http://example.com/a.jpg''] None
     = Returns ((WallpaperScraper_init ''wallpapers'' None None 5 30 True)
         \<lparr>stats := \<lparr>total_count = 1, downloaded = 0, filtered = 0, failed = 0,
                    categories = Map.empty\<rparr>\<rparr>) \<and>
   emitted (WallpaperScraper_init ''wallpapers'' None None 5 30 True) = []"
  by (simp add: download_images_def tasks_of_def set_total_def download_image_def
      download_body_def WallpaperScraper_init_def zero_stats_def)

lemma emit_fields:
  "stats (emit ev s) = stats s" "output_dir (emit ev s) = output_dir s"
  "image_filter (emit ev s) = image_filter s" "categorizer (emit ev s) = categorizer s"
  "has_progress_callback (emit ev s) = has_progress_callback s"
  by (simp_all add: emit_def)

lemma count_download_fields:
  "total_count (count_download cat st) = total_count st"
  "downloaded (count_download cat st) = downloaded st + 1"
  "filtered (count_download cat st) = filtered st"
  "failed (count_download cat st) = failed st"
  "get_or_zero (categories (count_download cat st)) c
     = get_or_zero (categories st) c + (if c = cat then 1 else 0)"
  by (simp_all add: count_download_def get_or_zero_def)

text \<open>
  The effect of one \<open>download_image\<close> on the statistics does not depend on the
  statistics it starts from: two scrapers that agree on everything else move by the same
  amounts.
\<close>

lemma download_image_accumulates:
  fixes world :: env and url :: string and metadata :: "metadata option"
    and s s' :: WallpaperScraper
  assumes "output_dir s = output_dir s'" "image_filter s = image_filter s'"
    "categorizer s = categorizer s'" "has_progress_callback s = has_progress_callback s'"
    "total_count (stats s) = total_count (stats s')"
    "downloaded (stats s) = d + downloaded (stats s')"
    "filtered (stats s) = f + filtered (stats s')"
    "failed (stats s) = e + failed (stats s')"
    "\<And>c. get_or_zero (categories (stats s)) c = h c + get_or_zero (categories (stats s')) c"
  defines "t \<equiv> snd (download_image world s url metadata)"
    and "t' \<equiv> snd (download_image world s' url metadata)"
  shows "output_dir t = output_dir t' \<and> image_filter t = image_filter t' \<and>
    categorizer t = categorizer t' \<and> has_progress_callback t = has_progress_callback t' \<and>
    total_count (stats t) = total_count (stats t') \<and>
    downloaded (stats t) = d + downloaded (stats t') \<and>
    filtered (stats t) = f + filtered (stats t') \<and>
    failed (stats t) = e + failed (stats t') \<and>
    (\<forall>c. get_or_zero (categories (stats t)) c = h c + get_or_zero (categories (stats t')) c)"
  unfolding t_def t'_def download_image_def download_body_def on_exception_def Let_def
  using assms(1-9)
  by (simp add: emit_fields count_download_fields
      split: sum.split option.split bool.split)

lemma run_tasks_accumulates:
  assumes "output_dir s = output_dir s'" "image_filter s = image_filter s'"
    "categorizer s = categorizer s'" "has_progress_callback s = has_progress_callback s'"
    "total_count (stats s) = total_count (stats s')"
    "downloaded (stats s) = d + downloaded (stats s')"
    "filtered (stats s) = f + filtered (stats s')"
    "failed (stats s) = e + failed (stats s')"
    "\<And>c. get_or_zero (categories (stats s)) c = h c + get_or_zero (categories (stats s')) c"
  shows "total_count (stats (run_tasks world s tasks)) = total_count (stats (run_tasks world s' tasks)) \<and>
    downloaded (stats (run_tasks world s tasks)) = d + downloaded (stats (run_tasks world s' tasks)) \<and>
    filtered (stats (run_tasks world s tasks)) = f + filtered (stats (run_tasks world s' tasks)) \<and>
    failed (stats (run_tasks world s tasks)) = e + failed (stats (run_tasks world s' tasks)) \<and>
    (\<forall>c. get_or_zero (categories (stats (run_tasks world s tasks))) c
          = h c + get_or_zero (categories (stats (run_tasks world s' tasks))) c)"
  using assms
proof (induction tasks arbitrary: s s')
  case Nil
  then show ?case by simp
next
  case (Cons task tasks)
  obtain url metadata where task: "task = (url, metadata)" by (cases task)
  from download_image_accumulates [OF Cons.prems, of world url "Some metadata"]
  have step: "output_dir (snd (download_image world s url (Some metadata)))
        = output_dir (snd (download_image world s' url (Some metadata)))"
    "image_filter (snd (download_image world s url (Some metadata)))
        = image_filter (snd (download_image world s' url (Some metadata)))"
    "categorizer (snd (download_image world s url (Some metadata)))
        = categorizer (snd (download_image world s' url (Some metadata)))"
    "has_progress_callback (snd (download_image world s url (Some metadata)))
        = has_progress_callback (snd (download_image world s' url (Some metadata)))"
    "total_count (stats (snd (download_image world s url (Some metadata))))
        = total_count (stats (snd (download_image world s' url (Some metadata))))"
    "downloaded (stats (snd (download_image world s url (Some metadata))))
        = d + downloaded (stats (snd (download_image world s' url (Some metadata))))"
    "filtered (stats (snd (download_image world s url (Some metadata))))
        = f + filtered (stats (snd (download_image world s' url (Some metadata))))"
    "failed (stats (snd (download_image world s url (Some metadata))))
        = e + failed (stats (snd (download_image world s' url (Some metadata))))"
    "\<And>c. get_or_zero (categories (stats (snd (download_image world s url (Some metadata))))) c
        = h c + get_or_zero (categories (stats (snd (download_image world s' url (Some metadata))))) c"
    by blast+
  from Cons.IH [OF step] show ?case by (simp add: task)
qed

text \<open>
  C7, as stated, fails. A first run over one candidate whose request raises leaves
  \<open>failed = 1\<close>; a second run on the same object, over no candidate at all, starts with
  that counter still at 1 and returns it.
\<close>

theorem download_images_second_run_counterexample:
  "download_images
     \<lparr>session_get = (\<lambda>u. Inl (ClientError ''refused'')),
      image_open = (\<lambda>b. Inr (3840, 2160)), mkdir = (\<lambda>p. None),
      write_file = (\<lambda>p b. None), url_path = (\<lambda>u. u)\<rparr>
     (WallpaperScraper_init ''wallpapers'' None None 5 30 False) [''http://example.com/a.jpg''] None
     = Returns ((WallpaperScraper_init ''wallpapers'' None None 5 30 False)
         \<lparr>stats := zero_stats\<lparr>total_count := 1, failed := 1\<rparr>\<rparr>) \<and>
   failed (stats (set_total ((WallpaperScraper_init ''wallpapers'' None None 5 30 False)
         \<lparr>stats := zero_stats\<lparr>total_count := 1, failed := 1\<rparr>\<rparr>) [])) = 1 \<and>
   download_images
     \<lparr>session_get = (\<lambda>u. Inl (ClientError ''refused'')),
      image_open = (\<lambda>b. Inr (3840, 2160)), mkdir = (\<lambda>p. None),
      write_file = (\<lambda>p b. None), url_path = (\<lambda>u. u)\<rparr>
     ((WallpaperScraper_init ''wallpapers'' None None 5 30 False)
         \<lparr>stats := zero_stats\<lparr>total_count := 1, failed := 1\<rparr>\<rparr>) [] None
     = Returns ((WallpaperScraper_init ''wallpapers'' None None 5 30 False)
         \<lparr>stats := zero_stats\<lparr>total_count := 0, failed := 1\<rparr>\<rparr>)"
  by (simp add: download_images_def tasks_of_def set_total_def download_image_def
      download_body_def on_exception_def emit_def WallpaperScraper_init_def zero_stats_def)

text \<open>
  C7, amended. The statistics are zeroed by the constructor only. \<open>download_images\<close>
  overwrites \<open>total_count\<close> and nothing else, so a call starts from the counters and the
  histogram the object already holds; and the snapshot a returning call leaves is what
  the object held before plus what the same run yields from zeroed statistics. Hence
  the first run on a new object reports that run alone, a later run on the same object
  the sum of the runs.
\<close>

theorem download_images_accumulates:
  "stats (WallpaperScraper_init out_dir flt cat k t cb) = zero_stats \<and>
   downloaded (stats (set_total self image_urls)) = downloaded (stats self) \<and>
   filtered (stats (set_total self image_urls)) = filtered (stats self) \<and>
   failed (stats (set_total self image_urls)) = failed (stats self) \<and>
   categories (stats (set_total self image_urls)) = categories (stats self) \<and>
   (download_images world self image_urls metadata_list = Returns s1 \<longrightarrow>
    download_images world (self\<lparr>stats := zero_stats\<rparr>) image_urls metadata_list = Returns s0 \<longrightarrow>
      total_count (stats s1) = total_count (stats s0) \<and>
      downloaded (stats s1) = downloaded (stats self) + downloaded (stats s0) \<and>
      filtered (stats s1) = filtered (stats self) + filtered (stats s0) \<and>
      failed (stats s1) = failed (stats self) + failed (stats s0) \<and>
      (\<forall>c. get_or_zero (categories (stats s1)) c
            = get_or_zero (categories (stats self)) c + get_or_zero (categories (stats s0)) c))"
proof (intro conjI impI)
  assume r1: "download_images world self image_urls metadata_list = Returns s1"
    and r0: "download_images world (self\<lparr>stats := zero_stats\<rparr>) image_urls metadata_list = Returns s0"
  let ?a = "set_total self image_urls"
  let ?b = "set_total (self\<lparr>stats := zero_stats\<rparr>) image_urls"
  let ?tasks = "tasks_of image_urls metadata_list"
  from r1 have s1: "s1 = run_tasks world ?a ?tasks"
    by (simp add: download_images_def Let_def split: if_splits)
  from r0 have s0: "s0 = run_tasks world ?b ?tasks"
    by (simp add: download_images_def Let_def split: if_splits)
  have acc: "total_count (stats (run_tasks world ?a ?tasks)) = total_count (stats (run_tasks world ?b ?tasks)) \<and>
    downloaded (stats (run_tasks world ?a ?tasks))
      = downloaded (stats self) + downloaded (stats (run_tasks world ?b ?tasks)) \<and>
    filtered (stats (run_tasks world ?a ?tasks))
      = filtered (stats self) + filtered (stats (run_tasks world ?b ?tasks)) \<and>
    failed (stats (run_tasks world ?a ?tasks))
      = failed (stats self) + failed (stats (run_tasks world ?b ?tasks)) \<and>
    (\<forall>c. get_or_zero (categories (stats (run_tasks world ?a ?tasks))) c
          = get_or_zero (categories (stats self)) c
            + get_or_zero (categories (stats (run_tasks world ?b ?tasks))) c)"
    by (rule run_tasks_accumulates)
      (simp_all add: set_total_def zero_stats_def get_or_zero_def)
  from acc show "total_count (stats s1) = total_count (stats s0)" by (simp add: s1 s0)
  from acc show "downloaded (stats s1) = downloaded (stats self) + downloaded (stats s0)"
    by (simp add: s1 s0)
  from acc show "filtered (stats s1) = filtered (stats self) + filtered (stats s0)"
    by (simp add: s1 s0)
  from acc show "failed (stats s1) = failed (stats self) + failed (stats s0)"
    by (simp add: s1 s0)
  from acc show "\<forall>c. get_or_zero (categories (stats s1)) c
            = get_or_zero (categories (stats self)) c + get_or_zero (categories (stats s0)) c"
    by (simp add: s1 s0)
qed (simp_all add: WallpaperScraper_init_def set_total_def)
text \<open>
  The theorem at a second run on a used object: the object enters with \<open>failed = 1\<close>,
  the run over one candidate whose request raises adds 1, and the snapshot says 2.
\<close>

theorem download_images_accumulates_witness:
  "download_images
     \<lparr>session_get = (\<lambda>u. Inl (ClientError ''refused'')),
      image_open = (\<lambda>b. Inr (3840, 2160)), mkdir = (\<lambda>p. None),
      write_file = (\<lambda>p b. None), url_path = (\<lambda>u. u)\<rparr>
     ((WallpaperScraper_init ''wallpapers'' None None 5 30 False)
         \<lparr>stats := zero_stats\<lparr>total_count := 1, failed := 1\<rparr>\<rparr>) [''http://example.com/b.jpg''] None
     = Returns ((WallpaperScraper_init ''wallpapers'' None None 5 30 False)
         \<lparr>stats := zero_stats\<lparr>total_count := 1, failed := 2\<rparr>\<rparr>) \<and>
   download_images
     \<lparr>session_get = (\<lambda>u. Inl (ClientError ''refused'')),
      image_open = (\<lambda>b. Inr (3840, 2160)), mkdir = (\<lambda>p. None),
      write_file = (\<lambda>p b. None), url_path = (\<lambda>u. u)\<rparr>
     ((WallpaperScraper_init ''wallpapers'' None None 5 30 False)
         \<lparr>stats := zero_stats\<lparr>total_count := 1, failed := 1\<rparr>\<rparr>\<lparr>stats := zero_stats\<rparr>)
     [''http://example.com/b.jpg''] None
     = Returns ((WallpaperScraper_init ''wallpapers'' None None 5 30 False)
         \<lparr>stats := zero_stats\<lparr>total_count := 1, failed := 1\<rparr>\<rparr>) \<and>
   failed (stats ((WallpaperScraper_init ''wallpapers'' None None 5 30 False)
         \<lparr>stats := zero_stats\<lparr>total_count := 1, failed := 2\<rparr>\<rparr>))
     = failed (stats ((WallpaperScraper_init ''wallpapers'' None None 5 30 False)
         \<lparr>stats := zero_stats\<lparr>total_count := 1, failed := 1\<rparr>\<rparr>))
       + failed (stats ((WallpaperScraper_init ''wallpapers'' None None 5 30 False)
         \<lparr>stats := zero_stats\<lparr>total_count := 1, failed := 1\<rparr>\<rparr>))"
proof -
  let ?world = "\<lparr>session_get = (\<lambda>u. Inl (ClientError ''refused'')),
      image_open = (\<lambda>b. Inr (3840, 2160)), mkdir = (\<lambda>p. None),
      write_file = (\<lambda>p b. None), url_path = (\<lambda>u. u)\<rparr>"
  let ?used = "(WallpaperScraper_init ''wallpapers'' None None 5 30 False)
         \<lparr>stats := zero_stats\<lparr>total_count := 1, failed := 1\<rparr>\<rparr>"
  let ?after = "(WallpaperScraper_init ''wallpapers'' None None 5 30 False)
         \<lparr>stats := zero_stats\<lparr>total_count := 1, failed := 2\<rparr>\<rparr>"
  have r1: "download_images ?world ?used [''http://example.com/b.jpg''] None = Returns ?after"
    by (simp add: download_images_def tasks_of_def set_total_def download_image_def
        download_body_def on_exception_def emit_def WallpaperScraper_init_def zero_stats_def)
  have r0: "download_images ?world (?used\<lparr>stats := zero_stats\<rparr>) [''http://example.com/b.jpg''] None
      = Returns ?used"
    by (simp add: download_images_def tasks_of_def set_total_def download_image_def
        download_body_def on_exception_def emit_def WallpaperScraper_init_def zero_stats_def)
  from download_images_accumulates
    [of "''wallpapers''" None None 5 30 False ?used "[''http://example.com/b.jpg'']"
        ?world None ?after ?used] r1 r0
  have "failed (stats ?after) = failed (stats ?used) + failed (stats ?used)" by blast
  with r1 r0 show ?thesis by blast
qed

section \<open>Properties of the page extractor\<close>

text \<open>
  C8, as stated, fails: an \<open>img\<close> element whose \<open>src\<close> attribute is present but empty
  yields the URL of its \<open>data-src\<close> attribute.
\<close>

theorem extract_image_urls_empty_src_counterexample:
  "[''src'' \<mapsto> '''', ''data-src'' \<mapsto> ''https://a.com/b.png''] ''src'' = Some '''' \<and>
   map cand_url
     (extract_image_urls (\<lambda>u. True) (\<lambda>b s. b @ s)
        [[''src'' \<mapsto> '''', ''data-src'' \<mapsto> ''https://a.com/b.png'']] None)
     = [''https://a.com/b.png'']"
  by (simp add: py_or_def resolve_src_def make_candidate_def)

text \<open>
  C8, amended. For every \<open>img\<close> element, in document order: when \<open>src\<close> is present and
  not empty the URL is taken from \<open>src\<close>; when \<open>src\<close> is absent or empty and
  \<open>data-src\<close> is present and not empty the URL is taken from \<open>data-src\<close>; when both
  are absent or empty the element is skipped. The URL taken is resolved against the base
  URL, and the element is kept only if the result passes the validator.
\<close>

theorem extract_image_urls_src_choice:
  "(img ''src'' = Some s \<and> s \<noteq> [] \<longrightarrow>
      extract_image_urls validators_url urljoin (img # imgs) base_url
        = (if validators_url (resolve_src urljoin base_url s)
           then [make_candidate img (resolve_src urljoin base_url s)] else [])
          @ extract_image_urls validators_url urljoin imgs base_url) \<and>
   ((img ''src'' = None \<or> img ''src'' = Some []) \<and> img ''data-src'' = Some d \<and> d \<noteq> [] \<longrightarrow>
      extract_image_urls validators_url urljoin (img # imgs) base_url
        = (if validators_url (resolve_src urljoin base_url d)
           then [make_candidate img (resolve_src urljoin base_url d)] else [])
          @ extract_image_urls validators_url urljoin imgs base_url) \<and>
   ((img ''src'' = None \<or> img ''src'' = Some []) \<and>
    (img ''data-src'' = None \<or> img ''data-src'' = Some []) \<longrightarrow>
      extract_image_urls validators_url urljoin (img # imgs) base_url
        = extract_image_urls validators_url urljoin imgs base_url)"
  by (auto simp: py_or_def Let_def)

text \<open>
  The theorem at three elements: one with both attributes, one with an empty \<open>src\<close>,
  one with neither. The validator accepts everything and there is no base URL.
\<close>

theorem extract_image_urls_src_choice_witness:
  "[''src'' \<mapsto> ''https://a.com/1.png'', ''data-src'' \<mapsto> ''https://a.com/2.png''] ''src''
     = Some ''https://a.com/1.png'' \<and>
   ''https://a.com/1.png'' \<noteq> [] \<and>
   map cand_url
     (extract_image_urls (\<lambda>u. True) (\<lambda>b s. b @ s)
        [[''src'' \<mapsto> ''https://a.com/1.png'', ''data-src'' \<mapsto> ''https://a.com/2.png'']] None)
     = [''https://a.com/1.png''] \<and>
   [''src'' \<mapsto> '''', ''data-src'' \<mapsto> ''https://a.com/2.png''] ''src'' = Some [] \<and>
   [''src'' \<mapsto> '''', ''data-src'' \<mapsto> ''https://a.com/2.png''] ''data-src''
     = Some ''https://a.com/2.png'' \<and>
   map cand_url
     (extract_image_urls (\<lambda>u. True) (\<lambda>b s. b @ s)
        [[''src'' \<mapsto> '''', ''data-src'' \<mapsto> ''https://a.com/2.png'']] None)
     = [''https://a.com/2.png''] \<and>
   [''alt'' \<mapsto> ''a picture''] ''src'' = None \<and>
   [''alt'' \<mapsto> ''a picture''] ''data-src'' = None \<and>
   extract_image_urls (\<lambda>u. True) (\<lambda>b s. b @ s) [[''alt'' \<mapsto> ''a picture'']] None = []"
proof -
  let ?V = "\<lambda>u :: string. True"
  let ?J = "\<lambda>(b :: string) (s :: string). b @ s"
  let ?i1 = "[''src'' \<mapsto> ''https://a.com/1.png'', ''data-src'' \<mapsto> ''https://a.com/2.png'']"
  let ?i2 = "[''src'' \<mapsto> '''', ''data-src'' \<mapsto> ''https://a.com/2.png'']"
  let ?i3 = "[''alt'' \<mapsto> ''a picture'']"
  have a1: "?i1 ''src'' = Some ''https://a.com/1.png'' \<and> ''https://a.com/1.png'' \<noteq> []" by simp
  with extract_image_urls_src_choice [of ?i1 "''https://a.com/1.png''" ?V ?J "[]" None]
  have e1: "extract_image_urls ?V ?J [?i1] None
      = [make_candidate ?i1 (resolve_src ?J None ''https://a.com/1.png'')]"
    by simp
  have a2: "(?i2 ''src'' = None \<or> ?i2 ''src'' = Some []) \<and>
      ?i2 ''data-src'' = Some ''https://a.com/2.png'' \<and> ''https://a.com/2.png'' \<noteq> []" by simp
  with extract_image_urls_src_choice [of ?i2 _ ?V ?J "[]" None "''https://a.com/2.png''"]
  have e2: "extract_image_urls ?V ?J [?i2] None
      = [make_candidate ?i2 (resolve_src ?J None ''https://a.com/2.png'')]"
    by simp
  have a3: "(?i3 ''src'' = None \<or> ?i3 ''src'' = Some []) \<and>
      (?i3 ''data-src'' = None \<or> ?i3 ''data-src'' = Some [])" by simp
  with extract_image_urls_src_choice [of ?i3 _ ?V ?J "[]" None]
  have e3: "extract_image_urls ?V ?J [?i3] None = []"
    by simp
  from a1 a2 a3 show ?thesis
    unfolding e1 e2 e3 by (simp add: make_candidate_def resolve_src_def)
qed

section \<open>Properties of the admission of tasks\<close>

text \<open>Replacing one element of a list moves the count of a property by that element only.\<close>

lemma count_list_update:
  "i < length ps \<Longrightarrow>
   length (filter P (ps[i := q])) + (if P (ps ! i) then 1 else 0)
     = length (filter P ps) + (if P q then 1 else 0)"
proof (induction ps arbitrary: i)
  case Nil
  then show ?case by simp
next
  case (Cons p ps)
  show ?case
  proof (cases i)
    case 0
    then show ?thesis by simp
  next
    case (Suc j)
    with Cons.prems have "j < length ps" by simp
    from Cons.IH [OF this] Suc show ?thesis by simp
  qed
qed

text \<open>The permits left and the tasks in flight always add up to the limit.\<close>

lemma step_keeps_permits:
  assumes "step world tasks c c'"
  shows "sem_value c' + in_flight c' = sem_value c + in_flight c"
  using assms
proof (cases rule: step.cases)
  case (acquire i)
  from count_list_update [OF acquire(2), of "\<lambda>p. p = Fetching" Fetching] acquire(3)
  have "length (filter (\<lambda>p. p = Fetching) ((phases c)[i := Fetching]))
      = length (filter (\<lambda>p. p = Fetching) (phases c)) + 1"
    by simp
  with acquire show ?thesis by (simp add: in_flight_def)
next
  case (release i)
  from count_list_update [OF release(2), of "\<lambda>p. p = Fetching" Done] release(4)
  have "length (filter (\<lambda>p. p = Fetching) ((phases c)[i := Done])) + 1
      = length (filter (\<lambda>p. p = Fetching) (phases c))"
    by simp
  with release show ?thesis by (simp add: in_flight_def)
qed

lemma reachable_keeps_permits:
  assumes "reachable world tasks c0 c"
  shows "sem_value c + in_flight c = sem_value c0 + in_flight c0"
  using assms
proof (induction rule: reachable.induct)
  case start
  show ?case by simp
next
  case (advance c c')
  with step_keeps_permits [OF advance.hyps(2)] show ?case by simp
qed

text \<open>
  C9. In every state the event loop can reach from the start of a run, the number of
  tasks inside \<open>download_image\<close> is at most \<open>concurrent_downloads\<close>.
\<close>

theorem in_flight_bounded:
  assumes "initial_state self image_urls metadata_list = Some c0"
    and "reachable world (tasks_of image_urls metadata_list) c0 c"
  shows "int (in_flight c) \<le> concurrent_downloads self"
proof -
  from assms(1) have k: "0 \<le> concurrent_downloads self"
    and c0: "c0 = \<lparr>sem_value = nat (concurrent_downloads self),
                 phases = replicate (length (tasks_of image_urls metadata_list)) Pending,
                 scraper = set_total self image_urls\<rparr>"
    by (simp_all add: initial_state_def split: if_splits)
  have "in_flight c0 = 0" by (simp add: c0 in_flight_def)
  with reachable_keeps_permits [OF assms(2)]
  have "sem_value c + in_flight c = nat (concurrent_downloads self)" by (simp add: c0)
  with k show ?thesis by linarith
qed
text \<open>
  The example of the specification: a limit of 2 and five candidates whose fetches never
  finish. After two admissions no permit is left, two tasks are in flight, and the bound
  of the theorem is met with equality.
\<close>

theorem in_flight_bounded_witness:
  "initial_state (WallpaperScraper_init ''wallpapers'' None None 2 30 False)
     [''http://example.com/1.jpg'', ''http://example.com/2.jpg'', ''http://example.com/3.jpg'',
      ''http://example.com/4.jpg'', ''http://example.com/5.jpg''] None
     = Some \<lparr>sem_value = 2, phases = [Pending, Pending, Pending, Pending, Pending],
             scraper = set_total (WallpaperScraper_init ''wallpapers'' None None 2 30 False)
               [''http://example.com/1.jpg'', ''http://example.com/2.jpg'',
                ''http://example.com/3.jpg'', ''http://example.com/4.jpg'',
                ''http://example.com/5.jpg'']\<rparr> \<and>
   reachable
     \<lparr>session_get = (\<lambda>u. Inl (ClientError ''refused'')),
      image_open = (\<lambda>b. Inr (3840, 2160)), mkdir = (\<lambda>p. None),
      write_file = (\<lambda>p b. None), url_path = (\<lambda>u. u)\<rparr>
     (tasks_of
        [''http://example.com/1.jpg'', ''http://example.com/2.jpg'', ''http://example.com/3.jpg'',
         ''http://example.com/4.jpg'', ''http://example.com/5.jpg''] None)
     \<lparr>sem_value = 2, phases = [Pending, Pending, Pending, Pending, Pending],
      scraper = set_total (WallpaperScraper_init ''wallpapers'' None None 2 30 False)
               [''http://example.com/1.jpg'', ''http://example.com/2.jpg'',
                ''http://example.com/3.jpg'', ''http://example.com/4.jpg'',
                ''http://example.com/5.jpg'']\<rparr>
     \<lparr>sem_value = 0, phases = [Fetching, Fetching, Pending, Pending, Pending],
      scraper = set_total (WallpaperScraper_init ''wallpapers'' None None 2 30 False)
               [''http://example.com/1.jpg'', ''http://example.com/2.jpg'',
                ''http://example.com/3.jpg'', ''http://example.com/4.jpg'',
                ''http://example.com/5.jpg'']\<rparr> \<and>
   in_flight
     \<lparr>sem_value = 0, phases = [Fetching, Fetching, Pending, Pending, Pending],
      scraper = set_total (WallpaperScraper_init ''wallpapers'' None None 2 30 False)
               [''http://example.com/1.jpg'', ''http://example.com/2.jpg'',
                ''http://example.com/3.jpg'', ''http://example.com/4.jpg'',
                ''http://example.com/5.jpg'']\<rparr> = 2 \<and>
   int (in_flight
     \<lparr>sem_value = 0, phases = [Fetching, Fetching, Pending, Pending, Pending],
      scraper = set_total (WallpaperScraper_init ''wallpapers'' None None 2 30 False)
               [''http://example.com/1.jpg'', ''http://example.com/2.jpg'',
                ''http://example.com/3.jpg'', ''http://example.com/4.jpg'',
                ''http://example.com/5.jpg'']\<rparr>)
     \<le> concurrent_downloads (WallpaperScraper_init ''wallpapers'' None None 2 30 False)"
proof -
  let ?world = "\<lparr>session_get = (\<lambda>u. Inl (ClientError ''refused'')),
      image_open = (\<lambda>b. Inr (3840, 2160)), mkdir = (\<lambda>p. None),
      write_file = (\<lambda>p b. None), url_path = (\<lambda>u. u)\<rparr>"
  let ?self = "WallpaperScraper_init ''wallpapers'' None None 2 30 False"
  let ?urls = "[''http://example.com/1.jpg'', ''http://example.com/2.jpg'',
                ''http://example.com/3.jpg'', ''http://example.com/4.jpg'',
                ''http://example.com/5.jpg'']"
  let ?tasks = "tasks_of ?urls None"
  let ?c0 = "\<lparr>sem_value = 2, phases = [Pending, Pending, Pending, Pending, Pending],
      scraper = set_total ?self ?urls\<rparr>"
  let ?c1 = "\<lparr>sem_value = 1, phases = [Fetching, Pending, Pending, Pending, Pending],
      scraper = set_total ?self ?urls\<rparr>"
  let ?c2 = "\<lparr>sem_value = 0, phases = [Fetching, Fetching, Pending, Pending, Pending],
      scraper = set_total ?self ?urls\<rparr>"
  have init: "initial_state ?self ?urls None = Some ?c0"
    by (simp add: initial_state_def tasks_of_def WallpaperScraper_init_def)
  have s1: "step ?world ?tasks ?c0 ?c1"
    using step.acquire [of 0 ?c0 ?world ?tasks] by simp
  have s2: "step ?world ?tasks ?c1 ?c2"
    using step.acquire [of 1 ?c1 ?world ?tasks] by simp
  have reach: "reachable ?world ?tasks ?c0 ?c2"
    by (rule reachable.advance [OF reachable.advance [OF reachable.start s1] s2])
  have two: "in_flight ?c2 = 2" by (simp add: in_flight_def)
  from in_flight_bounded [OF init reach]
  have "int (in_flight ?c2) \<le> concurrent_downloads ?self" .
  with init reach two show ?thesis by blast
qed

end
